theory Spec2Isabelle
  imports Main "HOL-Library.Multiset"
begin

section \<open>Guest-session image gallery backend (backend/app.py)\<close>

text \<open>
  The program is a set of Flask request handlers over an external relational store with
  two tables, \<open>users\<close> and \<open>images\<close>. Each handler is embedded as a function from the
  store (and what the request carries) to the HTTP response and the store afterwards.
  The \<open>try ... except Exception\<close> around every handler body is modelled by an
  exception value that is turned into a 500 response; writes committed before the
  exception stay in the returned store.

  \<open>create_image\<close>, \<open>update_image\<close> and \<open>reorder_images\<close> begin with
  \<open>data = request.get_json()\<close>. The functions of these names take the value that call
  returned: a JSON value, \<open>JNull\<close> standing for Python's \<open>None\<close>. The whole handlers,
  in which the call can also raise, are \<open>create_image_request\<close>, \<open>update_image_request\<close>
  and \<open>reorder_images_request\<close>. JSON numbers with a fractional part are not modelled.
  The moments read from \<open>datetime.utcnow().isoformat()\<close> and the key the store
  generates for an inserted row are parameters of the handlers.
\<close>

subsection \<open>JSON values and the Python operations the handlers apply to them\<close>

datatype json =
    JNull
  | JBool bool
  | JInt int
  | JStr string
  | JArr "json list"
  | JObj "(string \<times> json) list"

text \<open>
  The exceptions a handler body can raise: \<open>BadRequest\<close> and \<open>UnsupportedMediaType\<close> are
  what \<open>request.get_json()\<close> raises for a body it cannot read as JSON, \<open>APIError\<close> is the
  store client's.
\<close>

datatype exn =
    AttributeError
  | TypeError
  | KeyError string
  | IndexError
  | APIError
  | BadRequest
  | UnsupportedMediaType

text \<open>
  A response body is \<open>jsonify\<close> of a JSON value, or \<open>jsonify({"error": str(e)})\<close> for a
  caught exception \<open>e\<close> (the text of \<open>str(e)\<close> is not modelled). A response is the pair
  of body and status code that the handlers return.
\<close>

datatype body = Jsonify json | Error_str exn

type_synonym response = "body \<times> nat"

definition error_response :: "string \<Rightarrow> nat \<Rightarrow> response" where
  "error_response msg code = (Jsonify (JObj [(''error'', JStr msg)]), code)"

definition message_response :: "string \<Rightarrow> nat \<Rightarrow> response" where
  "message_response msg code = (Jsonify (JObj [(''message'', JStr msg)]), code)"

definition server_error :: "exn \<Rightarrow> response" where
  "server_error e = (Error_str e, 500)"

text \<open>Python truthiness: \<open>not v\<close> is \<open>\<not> truthy v\<close>.\<close>

fun truthy :: "json \<Rightarrow> bool" where
  "truthy JNull = False"
| "truthy (JBool b) = b"
| "truthy (JInt n) = (n \<noteq> 0)"
| "truthy (JStr s) = (s \<noteq> [])"
| "truthy (JArr xs) = (xs \<noteq> [])"
| "truthy (JObj kvs) = (kvs \<noteq> [])"

text \<open>\<open>d.get(key, default)\<close> on a dict, which is kept as an association list.\<close>

definition dict_get :: "(string \<times> json) list \<Rightarrow> string \<Rightarrow> json \<Rightarrow> json" where
  "dict_get kvs key dflt = (case map_of kvs key of None \<Rightarrow> dflt | Some v \<Rightarrow> v)"

text \<open>\<open>data.get(key, default)\<close>: only a dict has the attribute \<open>get\<close>.\<close>

fun py_get :: "json \<Rightarrow> string \<Rightarrow> json \<Rightarrow> exn + json" where
  "py_get (JObj kvs) key dflt = Inr (dict_get kvs key dflt)"
| "py_get _ key dflt = Inl AttributeError"

fun is_prefix :: "string \<Rightarrow> string \<Rightarrow> bool" where
  "is_prefix [] ys = True"
| "is_prefix (x # xs) [] = False"
| "is_prefix (x # xs) (y # ys) = (x = y \<and> is_prefix xs ys)"

fun is_substring :: "string \<Rightarrow> string \<Rightarrow> bool" where
  "is_substring xs [] = (xs = [])"
| "is_substring xs (y # ys) = (is_prefix xs (y # ys) \<or> is_substring xs ys)"

text \<open>
  \<open>key in data\<close> for a string \<open>key\<close>: key membership in a dict, element membership in a
  list, substring test in a string, and \<open>TypeError\<close> for \<open>None\<close>, a bool or a number.
\<close>

fun py_contains :: "string \<Rightarrow> json \<Rightarrow> exn + bool" where
  "py_contains key (JObj kvs) = Inr (map_of kvs key \<noteq> None)"
| "py_contains key (JArr xs) = Inr (JStr key \<in> set xs)"
| "py_contains key (JStr s) = Inr (is_substring key s)"
| "py_contains key _ = Inl TypeError"

text \<open>\<open>data[key]\<close> for a string \<open>key\<close>: only a dict can be indexed by a string.\<close>

fun py_getitem :: "json \<Rightarrow> string \<Rightarrow> exn + json" where
  "py_getitem (JObj kvs) key =
     (case map_of kvs key of None \<Rightarrow> Inl (KeyError key) | Some v \<Rightarrow> Inr v)"
| "py_getitem _ key = Inl TypeError"

text \<open>
  \<open>for item in order_list\<close>: the elements of a list, the characters of a string, the keys
  of a dict; anything else is not iterable.
\<close>

fun py_iter :: "json \<Rightarrow> exn + json list" where
  "py_iter (JArr xs) = Inr xs"
| "py_iter (JStr s) = Inr (map (\<lambda>c. JStr [c]) s)"
| "py_iter (JObj kvs) = Inr (map JStr (remdups (map fst kvs)))"
| "py_iter _ = Inl TypeError"

text \<open>The decimal text of an integer, as \<open>str\<close> gives it.\<close>

definition digit_char :: "nat \<Rightarrow> char" where
  "digit_char d = ''0123456789'' ! d"

fun nat_str :: "nat \<Rightarrow> string" where
  "nat_str n = (if n < 10 then [digit_char n] else nat_str (n div 10) @ [digit_char (n mod 10)])"

declare nat_str.simps [simp del]

definition int_str :: "int \<Rightarrow> string" where
  "int_str i = (if i < 0 then CHR ''-'' # nat_str (nat (- i)) else nat_str (nat i))"

text \<open>
  \<open>str(v)\<close>, the text that the store client's \<open>.eq(column, v)\<close> writes into the filter
  \<open>column=eq.<text>\<close>: a string is its own text, an integer its decimal text, a bool
  \<open>True\<close> or \<open>False\<close>, and \<open>None\<close> is \<open>None\<close>. The text of a list or a dict (the \<open>repr\<close> of
  its elements, with Python's quoting and escaping) is not modelled: it is given by the
  parameter \<open>container_str\<close>.
\<close>

fun py_str :: "(json \<Rightarrow> string) \<Rightarrow> json \<Rightarrow> string" where
  "py_str container_str (JStr s) = s"
| "py_str container_str (JInt n) = int_str n"
| "py_str container_str (JBool b) = (if b then ''True'' else ''False'')"
| "py_str container_str JNull = ''None''"
| "py_str container_str v = container_str v"

subsection \<open>The store\<close>

text \<open>
  Modelled from the spec: the relational store behind the Supabase client, which is an
  external service ("a relational store exposing table-scoped select/insert/update/delete
  with equality filters, ordering, and limit"). A table is the list of its rows. The
  columns have the types of the spec's data model: ids, the guest token, the texts and
  the timestamps are strings, \<open>display_order\<close> is an integer.
\<close>

record user =
  usr_id :: string
  usr_guest_id :: string
  usr_created_at :: string
  usr_last_accessed :: string

record image =
  img_id :: string
  img_user_id :: string
  img_title :: string
  img_image_url :: string
  img_description :: string
  img_display_order :: int
  img_created_at :: string
  img_updated_at :: string

record store =
  users :: "user list"
  images :: "image list"

text \<open>
  Modelled from the spec: \<open>.eq(column, value)\<close>, the equality filter of a select. The
  handlers' selects filter by strings (the token, the id in the path, a user id read from
  the store), which are their own filter text.
\<close>

definition select_eq :: "('r \<Rightarrow> 'a) \<Rightarrow> 'a \<Rightarrow> 'r list \<Rightarrow> 'r list" where
  "select_eq col v rows = filter (\<lambda>r. col r = v) rows"

text \<open>
  Modelled from the spec: \<open>.order(column)\<close> and \<open>.order(column, desc=True)\<close>. The store
  leaves the order of rows with equal keys open; the model sorts stably.
\<close>

definition order_by :: "('r \<Rightarrow> int) \<Rightarrow> 'r list \<Rightarrow> 'r list" where
  "order_by col rows = sort_key col rows"

definition order_by_desc :: "('r \<Rightarrow> int) \<Rightarrow> 'r list \<Rightarrow> 'r list" where
  "order_by_desc col rows = sort_key (\<lambda>r. - col r) rows"

text \<open>Modelled from the spec: \<open>.limit(n)\<close>.\<close>

definition limit :: "nat \<Rightarrow> 'r list \<Rightarrow> 'r list" where
  "limit n rows = take n rows"

text \<open>
  Modelled from the spec: the columns of \<open>images\<close> that a written dict may name, with the
  type of value each takes. The store refuses a write that names another column or
  carries a value of another type (\<open>id\<close> is generated by the store).
\<close>

fun column_ok :: "string \<times> json \<Rightarrow> bool" where
  "column_ok (c, JStr v) =
     (c = ''user_id'' \<or> c = ''title'' \<or> c = ''image_url'' \<or> c = ''description''
      \<or> c = ''created_at'' \<or> c = ''updated_at'')"
| "column_ok (c, JInt n) = (c = ''display_order'')"
| "column_ok (c, _) = False"

text \<open>
  Modelled from the spec: what writing one accepted column, and a whole dict of them, does
  to a row.
\<close>

fun set_column :: "string \<times> json \<Rightarrow> image \<Rightarrow> image" where
  "set_column (c, JStr v) r =
     (if c = ''user_id'' then r\<lparr>img_user_id := v\<rparr>
      else if c = ''title'' then r\<lparr>img_title := v\<rparr>
      else if c = ''image_url'' then r\<lparr>img_image_url := v\<rparr>
      else if c = ''description'' then r\<lparr>img_description := v\<rparr>
      else if c = ''created_at'' then r\<lparr>img_created_at := v\<rparr>
      else if c = ''updated_at'' then r\<lparr>img_updated_at := v\<rparr>
      else r)"
| "set_column (c, JInt n) r = (if c = ''display_order'' then r\<lparr>img_display_order := n\<rparr> else r)"
| "set_column (c, _) r = r"

definition set_columns :: "(string \<times> json) list \<Rightarrow> image \<Rightarrow> image" where
  "set_columns payload r = fold set_column payload r"

text \<open>
  Modelled from the spec: \<open>table("images").update(payload)\<close> under a filter. It returns
  the rows it changed (\<open>response.data\<close>) and the table afterwards, or raises.
\<close>

definition update_images ::
  "(string \<times> json) list \<Rightarrow> (image \<Rightarrow> bool) \<Rightarrow> image list \<Rightarrow> exn + (image list \<times> image list)"
where
  "update_images payload P rows =
     (if list_all column_ok payload
      then Inr (map (set_columns payload) (filter P rows),
                map (\<lambda>r. if P r then set_columns payload r else r) rows)
      else Inl APIError)"

text \<open>
  Modelled from the spec: \<open>table("images").insert(payload)\<close>. The new row gets the key
  \<open>new_id\<close> generated by the store; the handler supplies every other column.
\<close>

definition blank_image :: "string \<Rightarrow> image" where
  "blank_image new_id =
     \<lparr>img_id = new_id, img_user_id = [], img_title = [], img_image_url = [],
      img_description = [], img_display_order = 0, img_created_at = [],
      img_updated_at = []\<rparr>"

definition insert_images ::
  "string \<Rightarrow> (string \<times> json) list \<Rightarrow> image list \<Rightarrow> exn + (image list \<times> image list)"
where
  "insert_images new_id payload rows =
     (if list_all column_ok payload
      then (let r = set_columns payload (blank_image new_id) in Inr ([r], rows @ [r]))
      else Inl APIError)"

text \<open>Modelled from the spec: \<open>table("images").delete()\<close> under a filter.\<close>

definition delete_images :: "(image \<Rightarrow> bool) \<Rightarrow> image list \<Rightarrow> image list" where
  "delete_images P rows = filter (\<lambda>r. \<not> P r) rows"

text \<open>A row as the store client returns it: a dict of its columns.\<close>

definition image_json :: "image \<Rightarrow> json" where
  "image_json r =
     JObj [(''id'', JStr (img_id r)), (''user_id'', JStr (img_user_id r)),
           (''title'', JStr (img_title r)), (''image_url'', JStr (img_image_url r)),
           (''description'', JStr (img_description r)),
           (''display_order'', JInt (img_display_order r)),
           (''created_at'', JStr (img_created_at r)),
           (''updated_at'', JStr (img_updated_at r))]"

subsection \<open>The handlers\<close>

text \<open>
  \<open>require_guest_id\<close>: the decorator answers 401 when the header \<open>X-Guest-ID\<close> is missing
  or empty, and otherwise calls the handler with its value.
\<close>

definition require_guest_id ::
  "(string \<Rightarrow> response \<times> store) \<Rightarrow> store \<Rightarrow> string option \<Rightarrow> response \<times> store"
where
  "require_guest_id f s hdr =
     (case hdr of
        None \<Rightarrow> (error_response ''Guest ID required'' 401, s)
      | Some guest_id \<Rightarrow>
          if guest_id = [] then (error_response ''Guest ID required'' 401, s)
          else f guest_id)"

text \<open>\<open>verify_guest\<close> (POST /api/auth/verify); \<open>now\<close> is the clock reading.\<close>

definition verify_guest :: "store \<Rightarrow> string \<Rightarrow> string \<Rightarrow> response \<times> store" where
  "verify_guest s now guest_id =
     (case select_eq usr_guest_id guest_id (users s) of
        [] \<Rightarrow> (error_response ''Guest not found'' 404, s)
      | user # _ \<Rightarrow>
          (let s' = s\<lparr>users :=
                 map (\<lambda>u. if usr_id u = usr_id user then u\<lparr>usr_last_accessed := now\<rparr> else u)
                   (users s)\<rparr>
           in ((Jsonify (JObj [(''user_id'', JStr (usr_id user)),
                               (''guest_id'', JStr (usr_guest_id user)),
                               (''created_at'', JStr (usr_created_at user))]), 200), s')))"

text \<open>\<open>get_images\<close> (GET /api/images).\<close>

definition get_images :: "store \<Rightarrow> string \<Rightarrow> response \<times> store" where
  "get_images s guest_id =
     (case select_eq usr_guest_id guest_id (users s) of
        [] \<Rightarrow> (error_response ''User not found'' 404, s)
      | user # _ \<Rightarrow>
          (let user_id = usr_id user;
               images_data = order_by img_display_order (select_eq img_user_id user_id (images s))
           in ((Jsonify (JArr (map image_json images_data)), 200), s)))"

text \<open>
  \<open>create_image\<close> (POST /api/images). \<open>now1\<close> and \<open>now2\<close> are the two clock readings for
  \<open>created_at\<close> and \<open>updated_at\<close>. Every \<open>data.get\<close> raises \<open>AttributeError\<close> when the
  body is not a dict; the first of them is the first statement, so the case distinction
  on the body comes first.
\<close>

definition create_image ::
  "store \<Rightarrow> string \<Rightarrow> string \<Rightarrow> string \<Rightarrow> string \<Rightarrow> json \<Rightarrow> response \<times> store"
where
  "create_image s new_id now1 now2 guest_id data =
     (case data of
        JObj kvs \<Rightarrow>
          if \<not> truthy (dict_get kvs ''image_url'' JNull)
          then (error_response ''image_url is required'' 400, s)
          else
            (case select_eq usr_guest_id guest_id (users s) of
               [] \<Rightarrow> (error_response ''User not found'' 404, s)
             | user # _ \<Rightarrow>
                 (let user_id = usr_id user;
                      images_data = limit 1 (order_by_desc img_display_order
                                      (select_eq img_user_id user_id (images s)));
                      next_order = (case images_data of
                                      [] \<Rightarrow> - 1
                                    | r # _ \<Rightarrow> img_display_order r) + 1
                  in (case insert_images new_id
                             [(''user_id'', JStr user_id),
                              (''title'', dict_get kvs ''title'' (JStr ''Untitled'')),
                              (''image_url'', dict_get kvs ''image_url'' JNull),
                              (''description'', dict_get kvs ''description'' (JStr [])),
                              (''display_order'', JInt next_order),
                              (''created_at'', JStr now1),
                              (''updated_at'', JStr now2)]
                             (images s) of
                        Inl e \<Rightarrow> (server_error e, s)
                      | Inr (response_data, images') \<Rightarrow>
                          (case response_data of
                             [] \<Rightarrow> (server_error IndexError, s\<lparr>images := images'\<rparr>)
                           | r # _ \<Rightarrow> ((Jsonify (image_json r), 201), s\<lparr>images := images'\<rparr>)))))
      | _ \<Rightarrow> (server_error AttributeError, s))"

text \<open>
  The dict \<open>update_data\<close> of \<open>update_image\<close>: for each of the four keys in turn,
  \<open>if key in data: update_data[key] = data[key]\<close>.
\<close>

fun build_update_data ::
  "json \<Rightarrow> string list \<Rightarrow> (string \<times> json) list \<Rightarrow> exn + (string \<times> json) list"
where
  "build_update_data data [] update_data = Inr update_data"
| "build_update_data data (key # keys) update_data =
     (case py_contains key data of
        Inl e \<Rightarrow> Inl e
      | Inr False \<Rightarrow> build_update_data data keys update_data
      | Inr True \<Rightarrow>
          (case py_getitem data key of
             Inl e \<Rightarrow> Inl e
           | Inr v \<Rightarrow> build_update_data data keys (update_data @ [(key, v)])))"

text \<open>\<open>update_image\<close> (PUT /api/images/<image_id>).\<close>

definition update_image ::
  "store \<Rightarrow> string \<Rightarrow> string \<Rightarrow> string \<Rightarrow> json \<Rightarrow> response \<times> store"
where
  "update_image s now guest_id image_id data =
     (case select_eq usr_guest_id guest_id (users s) of
        [] \<Rightarrow> (error_response ''User not found'' 404, s)
      | user # _ \<Rightarrow>
          (let user_id = usr_id user;
               image_data = select_eq img_user_id user_id (select_eq img_id image_id (images s))
           in if image_data = []
              then (error_response ''Image not found or access denied'' 404, s)
              else
                (case build_update_data data
                        [''title'', ''description'', ''image_url'', ''display_order'']
                        [(''updated_at'', JStr now)] of
                   Inl e \<Rightarrow> (server_error e, s)
                 | Inr update_data \<Rightarrow>
                     (case update_images update_data (\<lambda>r. img_id r = image_id) (images s) of
                        Inl e \<Rightarrow> (server_error e, s)
                      | Inr (response_data, images') \<Rightarrow>
                          (case response_data of
                             [] \<Rightarrow> (server_error IndexError, s\<lparr>images := images'\<rparr>)
                           | r # _ \<Rightarrow>
                               ((Jsonify (image_json r), 200), s\<lparr>images := images'\<rparr>))))))"

text \<open>\<open>delete_image\<close> (DELETE /api/images/<image_id>).\<close>

definition delete_image :: "store \<Rightarrow> string \<Rightarrow> string \<Rightarrow> response \<times> store" where
  "delete_image s guest_id image_id =
     (case select_eq usr_guest_id guest_id (users s) of
        [] \<Rightarrow> (error_response ''User not found'' 404, s)
      | user # _ \<Rightarrow>
          (let user_id = usr_id user;
               image_data = select_eq img_user_id user_id (select_eq img_id image_id (images s))
           in if image_data = []
              then (error_response ''Image not found or access denied'' 404, s)
              else (message_response ''Image deleted'' 200,
                    s\<lparr>images := delete_images (\<lambda>r. img_id r = image_id) (images s)\<rparr>)))"

text \<open>
  The loop of \<open>reorder_images\<close>: one store update per item, filtered by the item's id and
  by the user. \<open>item["order"]\<close> is evaluated before \<open>item["id"]\<close>. The item's id may be any
  JSON value; \<open>.eq("id", item["id"])\<close> writes its text into the filter, so a row is matched
  when its id is that text (the number 7 matches the row whose id is \<open>7\<close>). The loop stops
  at the first exception and keeps what the earlier items wrote.
\<close>

fun reorder_loop ::
  "(json \<Rightarrow> string) \<Rightarrow> string \<Rightarrow> json list \<Rightarrow> image list \<Rightarrow> exn option \<times> image list"
where
  "reorder_loop container_str user_id [] rows = (None, rows)"
| "reorder_loop container_str user_id (item # items) rows =
     (case py_getitem item ''order'' of
        Inl e \<Rightarrow> (Some e, rows)
      | Inr ord \<Rightarrow>
          (case py_getitem item ''id'' of
             Inl e \<Rightarrow> (Some e, rows)
           | Inr iid \<Rightarrow>
               (case update_images [(''display_order'', ord)]
                       (\<lambda>r. img_id r = py_str container_str iid \<and> img_user_id r = user_id)
                       rows of
                  Inl e \<Rightarrow> (Some e, rows)
                | Inr (_, rows') \<Rightarrow> reorder_loop container_str user_id items rows')))"

text \<open>\<open>reorder_images\<close> (POST /api/images/reorder).\<close>

definition reorder_images ::
  "(json \<Rightarrow> string) \<Rightarrow> store \<Rightarrow> string \<Rightarrow> json \<Rightarrow> response \<times> store"
where
  "reorder_images container_str s guest_id data =
     (case py_get data ''order'' (JArr []) of
        Inl e \<Rightarrow> (server_error e, s)
      | Inr order_list \<Rightarrow>
          (case select_eq usr_guest_id guest_id (users s) of
             [] \<Rightarrow> (error_response ''User not found'' 404, s)
           | user # _ \<Rightarrow>
               (let user_id = usr_id user
                in (case py_iter order_list of
                      Inl e \<Rightarrow> (server_error e, s)
                    | Inr items \<Rightarrow>
                        (case reorder_loop container_str user_id items (images s) of
                           (Some e, rows') \<Rightarrow> (server_error e, s\<lparr>images := rows'\<rparr>)
                         | (None, rows') \<Rightarrow>
                             (message_response ''Reordered'' 200, s\<lparr>images := rows'\<rparr>))))))"

text \<open>
  \<open>data = request.get_json()\<close> is the first statement inside the \<open>try\<close> of
  \<open>create_image\<close> (line 112), \<open>update_image\<close> (line 149) and \<open>reorder_images\<close>
  (line 209). The call returns the parsed body (\<open>Inr\<close>) or raises (\<open>Inl\<close>); what it raises
  is caught by the handler's \<open>except Exception\<close> and answered 500 before anything else
  is done.
\<close>

definition get_json_then ::
  "(json \<Rightarrow> response \<times> store) \<Rightarrow> store \<Rightarrow> exn + json \<Rightarrow> response \<times> store"
where
  "get_json_then f s body =
     (case body of
        Inl e \<Rightarrow> (server_error e, s)
      | Inr data \<Rightarrow> f data)"

definition create_image_request ::
  "store \<Rightarrow> string \<Rightarrow> string \<Rightarrow> string \<Rightarrow> string \<Rightarrow> exn + json \<Rightarrow> response \<times> store"
where
  "create_image_request s new_id now1 now2 guest_id body =
     get_json_then (create_image s new_id now1 now2 guest_id) s body"

definition update_image_request ::
  "store \<Rightarrow> string \<Rightarrow> string \<Rightarrow> string \<Rightarrow> exn + json \<Rightarrow> response \<times> store"
where
  "update_image_request s now guest_id image_id body =
     get_json_then (update_image s now guest_id image_id) s body"

definition reorder_images_request ::
  "(json \<Rightarrow> string) \<Rightarrow> store \<Rightarrow> string \<Rightarrow> exn + json \<Rightarrow> response \<times> store"
where
  "reorder_images_request container_str s guest_id body =
     get_json_then (reorder_images container_str s guest_id) s body"

subsection \<open>Reference definitions for the statements\<close>

text \<open>
  The row that \<open>create\<close> is to insert, in the spec's words: the given fields, the two
  clock readings, and as \<open>display_order\<close> one more than the greatest \<open>display_order\<close>
  among the user's images, or 0 when the user has none.
\<close>

definition created_image ::
  "store \<Rightarrow> string \<Rightarrow> string \<Rightarrow> string \<Rightarrow> string \<Rightarrow> string \<Rightarrow> string \<Rightarrow> string \<Rightarrow> image"
where
  "created_image s new_id now1 now2 uid t url d =
     \<lparr>img_id = new_id, img_user_id = uid, img_title = t, img_image_url = url,
      img_description = d,
      img_display_order =
        (let owned = filter (\<lambda>r. img_user_id r = uid) (images s)
         in if owned = [] then 0 else 1 + Max (img_display_order ` set owned)),
      img_created_at = now1, img_updated_at = now2\<rparr>"

text \<open>
  The record that \<open>update\<close> is to leave, in the spec's words: each of the four fields is
  overwritten when the input has it and kept otherwise, and \<open>updated_at\<close> is the clock
  reading.
\<close>

definition new_text :: "(string \<times> json) list \<Rightarrow> string \<Rightarrow> string \<Rightarrow> string" where
  "new_text kvs key old = (case map_of kvs key of Some (JStr v) \<Rightarrow> v | _ \<Rightarrow> old)"

definition new_int :: "(string \<times> json) list \<Rightarrow> string \<Rightarrow> int \<Rightarrow> int" where
  "new_int kvs key old = (case map_of kvs key of Some (JInt n) \<Rightarrow> n | _ \<Rightarrow> old)"

definition updated_image :: "(string \<times> json) list \<Rightarrow> string \<Rightarrow> image \<Rightarrow> image" where
  "updated_image kvs now r =
     r\<lparr>img_title := new_text kvs ''title'' (img_title r),
       img_description := new_text kvs ''description'' (img_description r),
       img_image_url := new_text kvs ''image_url'' (img_image_url r),
       img_display_order := new_int kvs ''display_order'' (img_display_order r),
       img_updated_at := now\<rparr>"

text \<open>
  A field of a partial input is well-typed when it is absent or carries a value of its
  column's type.
\<close>

definition field_ok :: "(string \<times> json) list \<Rightarrow> string \<Rightarrow> bool" where
  "field_ok kvs key = (case map_of kvs key of None \<Rightarrow> True | Some v \<Rightarrow> column_ok (key, v))"

text \<open>The entry that \<open>key\<close> contributes to \<open>update_data\<close>.\<close>

definition present :: "(string \<times> json) list \<Rightarrow> string \<Rightarrow> (string \<times> json) list" where
  "present kvs key = (case map_of kvs key of None \<Rightarrow> [] | Some v \<Rightarrow> [(key, v)])"

text \<open>
  An item of an order list read as an \<open>{id, order}\<close> pair: a dict with an \<open>id\<close> and an
  integer \<open>order\<close>. The id is taken by its text, which is what the store compares with
  the ids of the rows.
\<close>

fun item_pair :: "(json \<Rightarrow> string) \<Rightarrow> json \<Rightarrow> (string \<times> int) option" where
  "item_pair container_str (JObj kvs) =
     (case (map_of kvs ''id'', map_of kvs ''order'') of
        (Some i, Some (JInt n)) \<Rightarrow> Some (py_str container_str i, n)
      | _ \<Rightarrow> None)"
| "item_pair container_str _ = None"

text \<open>
  What \<open>reorder\<close> is to do to one image, in the spec's words: an image of the user whose
  id is in the list gets the order given for it (the last one, when the id is listed more
  than once); every other image stays as it is.
\<close>

definition reordered :: "string \<Rightarrow> (string \<times> int) list \<Rightarrow> image \<Rightarrow> image" where
  "reordered user_id pairs r =
     (if img_user_id r = user_id
      then (case map_of (rev pairs) (img_id r) of
              Some n \<Rightarrow> r\<lparr>img_display_order := n\<rparr>
            | None \<Rightarrow> r)
      else r)"

subsection \<open>Example data\<close>

text \<open>
  Three guests: A owns three images, stored out of order, B owns one, C owns none.
\<close>

definition user_a :: user where
  "user_a = \<lparr>usr_id = ''ua'', usr_guest_id = ''token-a'', usr_created_at = ''t0'',
             usr_last_accessed = ''t0''\<rparr>"

definition user_b :: user where
  "user_b = \<lparr>usr_id = ''ub'', usr_guest_id = ''token-b'', usr_created_at = ''t1'',
             usr_last_accessed = ''t1''\<rparr>"

definition user_c :: user where
  "user_c = \<lparr>usr_id = ''uc'', usr_guest_id = ''token-c'', usr_created_at = ''t2'',
             usr_last_accessed = ''t2''\<rparr>"

definition demo_image :: "string \<Rightarrow> string \<Rightarrow> int \<Rightarrow> image" where
  "demo_image i uid n =
     \<lparr>img_id = i, img_user_id = uid, img_title = ''Untitled'',
      img_image_url = ''http://x/1.png'', img_description = [], img_display_order = n,
      img_created_at = ''t3'', img_updated_at = ''t3''\<rparr>"

definition demo_store :: store where
  "demo_store =
     \<lparr>users = [user_a, user_b, user_c],
      images = [demo_image ''i1'' ''ua'' 1, demo_image ''i9'' ''ub'' 7,
                demo_image ''i0'' ''ua'' 0, demo_image ''i2'' ''ua'' 2]\<rparr>"

text \<open>A table in which an id is the text of a number.\<close>

definition number_store :: store where
  "number_store =
     \<lparr>users = [user_a, user_b, user_c],
      images = [demo_image ''7'' ''ua'' 0, demo_image ''i1'' ''ua'' 1,
                demo_image ''i9'' ''ub'' 7, demo_image ''12'' ''ub'' 8]\<rparr>"

section \<open>Properties\<close>

subsection \<open>The decorator\<close>

text \<open>
  Every route below is its handler wrapped by \<open>require_guest_id\<close>. A request that
  supplies a token (a non-empty header value) reaches the handler with it; one that
  supplies none is answered 401 and never reaches a handler. The properties that follow
  are stated on the handlers.
\<close>

lemma require_guest_id_supplied:
  "guest_id \<noteq> [] \<Longrightarrow> require_guest_id f s (Some guest_id) = f guest_id"
  by (simp add: require_guest_id_def)

lemma require_guest_id_missing:
  "require_guest_id f s None = (error_response ''Guest ID required'' 401, s)"
  "require_guest_id f s (Some []) = (error_response ''Guest ID required'' 401, s)"
  by (simp_all add: require_guest_id_def)

text \<open>
  What a selection says about the table: it is empty exactly when no row has the value,
  its first row is a row of the table with the value, and when the column is a key it is
  the one row that has the value.
\<close>

lemma select_eq_empty: "select_eq col v rows = [] \<longleftrightarrow> v \<notin> col ` set rows"
  by (auto simp: select_eq_def filter_empty_conv)

lemma select_eq_first:
  assumes "select_eq col v rows = r # rest"
  shows "r \<in> set rows \<and> col r = v"
proof -
  have "r \<in> set (select_eq col v rows)"
    using assms by simp
  then show ?thesis
    by (simp add: select_eq_def)
qed

lemma select_eq_key:
  assumes "distinct (map col rows)" and "r \<in> set rows"
  shows "select_eq col (col r) rows = [r]"
  using assms
proof (induction rows)
  case Nil
  then show ?case by simp
next
  case (Cons a rows)
  show ?case
  proof (cases "a = r")
    case True
    then have "col r \<notin> col ` set rows"
      using Cons.prems(1) by simp
    then have "select_eq col (col r) rows = []"
      by (simp add: select_eq_empty)
    then show ?thesis
      using True by (simp add: select_eq_def)
  next
    case False
    then have "r \<in> set rows"
      using Cons.prems(2) by simp
    moreover from this have "col a \<noteq> col r"
      using Cons.prems(1) by auto
    ultimately show ?thesis
      using Cons by (simp add: select_eq_def)
  qed
qed

lemma demo_users:
  "select_eq usr_guest_id ''token-a'' (users demo_store) = [user_a]"
  "select_eq usr_guest_id ''token-b'' (users demo_store) = [user_b]"
  "select_eq usr_guest_id ''token-c'' (users demo_store) = [user_c]"
  "select_eq usr_guest_id ''token-z'' (users demo_store) = []"
  by (simp_all add: demo_store_def user_a_def user_b_def user_c_def select_eq_def)

subsection \<open>Verifying a guest\<close>

text \<open>
  C9. \<open>verify_guest\<close> answers 404 and leaves the store alone when no user carries the
  token. When \<open>user\<close> is the registered user with the token, it answers 200 with exactly
  \<open>user_id\<close>, \<open>guest_id\<close> and \<open>created_at\<close> of that user, sets \<open>last_accessed\<close> of the row
  with that user's id to the clock reading, and changes nothing else: ids, tokens and
  creation times of all users and all images are as before.
\<close>

theorem verify_guest_spec:
  "(select_eq usr_guest_id guest_id (users s) = [] \<longrightarrow>
      verify_guest s now guest_id = (error_response ''Guest not found'' 404, s))
   \<and> (\<forall>user rest. select_eq usr_guest_id guest_id (users s) = user # rest \<longrightarrow>
        verify_guest s now guest_id =
          ((Jsonify (JObj [(''user_id'', JStr (usr_id user)), (''guest_id'', JStr guest_id),
                           (''created_at'', JStr (usr_created_at user))]), 200),
           s\<lparr>users := map (\<lambda>u. if usr_id u = usr_id user
                               then u\<lparr>usr_last_accessed := now\<rparr> else u) (users s)\<rparr>)
        \<and> map usr_id (users (snd (verify_guest s now guest_id))) = map usr_id (users s)
        \<and> map usr_guest_id (users (snd (verify_guest s now guest_id))) =
            map usr_guest_id (users s)
        \<and> map usr_created_at (users (snd (verify_guest s now guest_id))) =
            map usr_created_at (users s)
        \<and> images (snd (verify_guest s now guest_id)) = images s)"
proof (intro conjI allI impI)
  assume "select_eq usr_guest_id guest_id (users s) = []"
  then show "verify_guest s now guest_id = (error_response ''Guest not found'' 404, s)"
    by (simp add: verify_guest_def)
next
  fix user rest
  assume sel: "select_eq usr_guest_id guest_id (users s) = user # rest"
  then have "user \<in> set (select_eq usr_guest_id guest_id (users s))"
    by simp
  then have g: "usr_guest_id user = guest_id"
    by (simp add: select_eq_def)
  show v: "verify_guest s now guest_id =
          ((Jsonify (JObj [(''user_id'', JStr (usr_id user)), (''guest_id'', JStr guest_id),
                           (''created_at'', JStr (usr_created_at user))]), 200),
           s\<lparr>users := map (\<lambda>u. if usr_id u = usr_id user
                               then u\<lparr>usr_last_accessed := now\<rparr> else u) (users s)\<rparr>)"
    using sel g by (simp add: verify_guest_def)
  show "map usr_id (users (snd (verify_guest s now guest_id))) = map usr_id (users s)"
    by (simp add: v o_def if_distrib cong: if_cong)
  show "map usr_guest_id (users (snd (verify_guest s now guest_id))) =
          map usr_guest_id (users s)"
    by (simp add: v o_def if_distrib cong: if_cong)
  show "map usr_created_at (users (snd (verify_guest s now guest_id))) =
          map usr_created_at (users s)"
    by (simp add: v o_def if_distrib cong: if_cong)
  show "images (snd (verify_guest s now guest_id)) = images s"
    by (simp add: v)
qed

theorem verify_guest_spec_witness:
  "select_eq usr_guest_id ''token-z'' (users demo_store) = []
   \<and> verify_guest demo_store ''t9'' ''token-z'' =
       ((Jsonify (JObj [(''error'', JStr ''Guest not found'')]), 404), demo_store)
   \<and> select_eq usr_guest_id ''token-b'' (users demo_store) = [user_b]
   \<and> verify_guest demo_store ''t9'' ''token-b'' =
       ((Jsonify (JObj [(''user_id'', JStr ''ub''), (''guest_id'', JStr ''token-b''),
                        (''created_at'', JStr ''t1'')]), 200),
        demo_store\<lparr>users := [user_a, user_b\<lparr>usr_last_accessed := ''t9''\<rparr>, user_c]\<rparr>)"
proof -
  have h1: "select_eq usr_guest_id ''token-z'' (users demo_store) = []"
    by (rule demo_users)
  have h2: "select_eq usr_guest_id ''token-b'' (users demo_store) = [user_b]"
    by (rule demo_users)
  have u: "map (\<lambda>u. if usr_id u = ''ub'' then u\<lparr>usr_last_accessed := ''t9''\<rparr> else u)
             (users demo_store) = [user_a, user_b\<lparr>usr_last_accessed := ''t9''\<rparr>, user_c]"
    by (simp add: demo_store_def user_a_def user_b_def user_c_def)
  have f: "usr_id user_b = ''ub''" "usr_created_at user_b = ''t1''"
    by (simp_all add: user_b_def)
  from verify_guest_spec [of "''token-z''" demo_store "''t9''"] h1
  have a: "verify_guest demo_store ''t9'' ''token-z'' =
       ((Jsonify (JObj [(''error'', JStr ''Guest not found'')]), 404), demo_store)"
    by (simp add: error_response_def)
  from verify_guest_spec [of "''token-b''" demo_store "''t9''"] h2
  have b: "verify_guest demo_store ''t9'' ''token-b'' =
       ((Jsonify (JObj [(''user_id'', JStr ''ub''), (''guest_id'', JStr ''token-b''),
                        (''created_at'', JStr ''t1'')]), 200),
        demo_store\<lparr>users := [user_a, user_b\<lparr>usr_last_accessed := ''t9''\<rparr>, user_c]\<rparr>)"
    by (simp add: u f)
  from h1 a h2 b show ?thesis by simp
qed

subsection \<open>Listing images\<close>

text \<open>
  C4. For a resolved user, \<open>get_images\<close> answers 200 with a sequence of rows that, as a
  multiset, is exactly the rows of the table whose \<open>user_id\<close> is the user's id, and that
  is sorted ascending by \<open>display_order\<close>, wherever the rows stand in the table. When the
  user has no image the answer is 200 with the empty sequence. The store is unchanged.
\<close>

theorem get_images_sorted:
  assumes "select_eq usr_guest_id guest_id (users s) = user # rest"
  shows "\<exists>rows. get_images s guest_id = ((Jsonify (JArr (map image_json rows)), 200), s)
           \<and> mset rows = mset (filter (\<lambda>r. img_user_id r = usr_id user) (images s))
           \<and> sorted (map img_display_order rows)
           \<and> (filter (\<lambda>r. img_user_id r = usr_id user) (images s) = [] \<longrightarrow> rows = [])"
  using assms
  by (intro exI [of _ "order_by img_display_order (select_eq img_user_id (usr_id user) (images s))"])
     (simp add: get_images_def order_by_def select_eq_def)

theorem get_images_sorted_witness:
  "select_eq usr_guest_id ''token-a'' (users demo_store) = [user_a]
   \<and> (\<exists>rows. get_images demo_store ''token-a'' =
                 ((Jsonify (JArr (map image_json rows)), 200), demo_store)
         \<and> mset rows = mset (filter (\<lambda>r. img_user_id r = usr_id user_a) (images demo_store))
         \<and> sorted (map img_display_order rows))
   \<and> get_images demo_store ''token-a'' =
       ((Jsonify (JArr (map image_json
           [demo_image ''i0'' ''ua'' 0, demo_image ''i1'' ''ua'' 1, demo_image ''i2'' ''ua'' 2])),
         200), demo_store)
   \<and> select_eq usr_guest_id ''token-c'' (users demo_store) = [user_c]
   \<and> get_images demo_store ''token-c'' = ((Jsonify (JArr []), 200), demo_store)"
proof -
  have h1: "select_eq usr_guest_id ''token-a'' (users demo_store) = [user_a]"
    by (rule demo_users)
  have h1c: "select_eq usr_guest_id ''token-c'' (users demo_store) = [user_c]"
    by (rule demo_users)
  have owned_c: "filter (\<lambda>r. img_user_id r = usr_id user_c) (images demo_store) = []"
    by (simp add: demo_store_def demo_image_def user_c_def)
  from get_images_sorted [OF h1]
  have a: "\<exists>rows. get_images demo_store ''token-a'' =
                 ((Jsonify (JArr (map image_json rows)), 200), demo_store)
         \<and> mset rows = mset (filter (\<lambda>r. img_user_id r = usr_id user_a) (images demo_store))
         \<and> sorted (map img_display_order rows)"
    by blast
  have b: "get_images demo_store ''token-a'' =
       ((Jsonify (JArr (map image_json
           [demo_image ''i0'' ''ua'' 0, demo_image ''i1'' ''ua'' 1, demo_image ''i2'' ''ua'' 2])),
         200), demo_store)"
    by (simp add: get_images_def h1 order_by_def select_eq_def user_a_def demo_store_def
        demo_image_def Let_def)
  from get_images_sorted [OF h1c] owned_c
  have c: "get_images demo_store ''token-c'' = ((Jsonify (JArr []), 200), demo_store)"
    by auto
  from h1 a b h1c c show ?thesis
    by blast
qed

subsection \<open>Creating an image\<close>

lemma order_by_desc_first:
  assumes "rows \<noteq> []"
  shows "\<exists>r rest. order_by_desc col rows = r # rest \<and> col r = Max (col ` set rows)"
proof -
  let ?ys = "sort_key (\<lambda>r. - col r) rows"
  have "?ys \<noteq> []"
    using assms by (metis length_sort length_0_conv)
  then obtain r rest where ys: "?ys = r # rest"
    by (cases ?ys) auto
  have "sorted (map (\<lambda>r. - col r) ?ys)"
    by (rule sorted_sort_key)
  then have le: "\<forall>y \<in> set ?ys. col y \<le> col r"
    unfolding ys by auto
  have "set ?ys = set rows"
    by simp
  moreover have "r \<in> set ?ys"
    unfolding ys by simp
  ultimately have "col r = Max (col ` set rows)"
    using le by (intro Max_eqI [symmetric]) auto
  then show ?thesis
    using ys by (simp add: order_by_desc_def)
qed

lemma next_order_eq:
  "(case limit 1 (order_by_desc col rows) of [] \<Rightarrow> - 1 | r # _ \<Rightarrow> col r) + 1 =
     (if rows = [] then 0 else 1 + Max (col ` set rows))"
proof (cases "rows = []")
  case True
  then show ?thesis by (simp add: limit_def order_by_desc_def)
next
  case False
  from order_by_desc_first [OF False, of col] obtain r rest
    where "order_by_desc col rows = r # rest" "col r = Max (col ` set rows)" by blast
  then show ?thesis using False by (simp add: limit_def)
qed

text \<open>
  C3. For a resolved user and a body whose \<open>image_url\<close> is a non-empty string and whose
  \<open>title\<close> and \<open>description\<close> are strings or absent, \<open>create_image\<close> answers 201 with
  the row \<open>created_image\<close> and appends it to the table: its \<open>display_order\<close> is 1 plus the
  greatest \<open>display_order\<close> among the user's images, or 0 when the user has none.
\<close>

theorem create_image_next_order:
  assumes "select_eq usr_guest_id guest_id (users s) = user # rest"
    and "dict_get kvs ''image_url'' JNull = JStr url" and "url \<noteq> []"
    and "dict_get kvs ''title'' (JStr ''Untitled'') = JStr t"
    and "dict_get kvs ''description'' (JStr []) = JStr d"
  shows "create_image s new_id now1 now2 guest_id (JObj kvs) =
           ((Jsonify (image_json (created_image s new_id now1 now2 (usr_id user) t url d)), 201),
            s\<lparr>images := images s @ [created_image s new_id now1 now2 (usr_id user) t url d]\<rparr>)"
  using assms
  by (simp add: create_image_def insert_images_def set_columns_def blank_image_def
      created_image_def next_order_eq select_eq_def Let_def del: One_nat_def)

theorem create_image_next_order_witness:
  "select_eq usr_guest_id ''token-a'' (users demo_store) = [user_a]
   \<and> map img_display_order (filter (\<lambda>r. img_user_id r = ''ua'') (images demo_store)) = [1, 0, 2]
   \<and> create_image demo_store ''i3'' ''t4'' ''t5'' ''token-a''
         (JObj [(''image_url'', JStr ''http://x/2.png'')]) =
       ((Jsonify (image_json
           \<lparr>img_id = ''i3'', img_user_id = ''ua'', img_title = ''Untitled'',
            img_image_url = ''http://x/2.png'', img_description = [], img_display_order = 3,
            img_created_at = ''t4'', img_updated_at = ''t5''\<rparr>), 201),
        demo_store\<lparr>images := images demo_store @
           [\<lparr>img_id = ''i3'', img_user_id = ''ua'', img_title = ''Untitled'',
             img_image_url = ''http://x/2.png'', img_description = [], img_display_order = 3,
             img_created_at = ''t4'', img_updated_at = ''t5''\<rparr>]\<rparr>)
   \<and> select_eq usr_guest_id ''token-c'' (users demo_store) = [user_c]
   \<and> filter (\<lambda>r. img_user_id r = ''uc'') (images demo_store) = []
   \<and> img_display_order (last (images (snd (create_image demo_store ''i3'' ''t4'' ''t5'' ''token-c''
         (JObj [(''image_url'', JStr ''http://x/2.png'')]))))) = 0"
proof -
  let ?kvs = "[(''image_url'', JStr ''http://x/2.png'')]"
  have h1: "select_eq usr_guest_id ''token-a'' (users demo_store) = [user_a]"
    by (rule demo_users)
  have h1c: "select_eq usr_guest_id ''token-c'' (users demo_store) = [user_c]"
    by (rule demo_users)
  have h2: "dict_get ?kvs ''image_url'' JNull = JStr ''http://x/2.png''"
    by (simp add: dict_get_def)
  have h3: "''http://x/2.png'' \<noteq> []"
    by simp
  have h4: "dict_get ?kvs ''title'' (JStr ''Untitled'') = JStr ''Untitled''"
    by (simp add: dict_get_def)
  have h5: "dict_get ?kvs ''description'' (JStr []) = JStr []"
    by (simp add: dict_get_def)
  have owned_a: "map img_display_order (filter (\<lambda>r. img_user_id r = ''ua'') (images demo_store))
                 = [1, 0, 2]"
    by (simp add: demo_store_def demo_image_def)
  have owned_c: "filter (\<lambda>r. img_user_id r = ''uc'') (images demo_store) = []"
    by (simp add: demo_store_def demo_image_def)
  have row_a: "created_image demo_store ''i3'' ''t4'' ''t5'' (usr_id user_a) ''Untitled''
                 ''http://x/2.png'' [] =
           \<lparr>img_id = ''i3'', img_user_id = ''ua'', img_title = ''Untitled'',
            img_image_url = ''http://x/2.png'', img_description = [], img_display_order = 3,
            img_created_at = ''t4'', img_updated_at = ''t5''\<rparr>"
    by (simp add: created_image_def demo_store_def demo_image_def user_a_def)
  have row_c: "img_display_order (created_image demo_store ''i3'' ''t4'' ''t5'' (usr_id user_c)
                 ''Untitled'' ''http://x/2.png'' []) = 0"
    by (simp add: created_image_def demo_store_def demo_image_def user_c_def)
  note a = create_image_next_order [OF h1 h2 h3 h4 h5, of "''i3''" "''t4''" "''t5''"]
  note c = create_image_next_order [OF h1c h2 h3 h4 h5, of "''i3''" "''t4''" "''t5''"]
  from a have ra: "create_image demo_store ''i3'' ''t4'' ''t5'' ''token-a'' (JObj ?kvs) =
       ((Jsonify (image_json
           \<lparr>img_id = ''i3'', img_user_id = ''ua'', img_title = ''Untitled'',
            img_image_url = ''http://x/2.png'', img_description = [], img_display_order = 3,
            img_created_at = ''t4'', img_updated_at = ''t5''\<rparr>), 201),
        demo_store\<lparr>images := images demo_store @
           [\<lparr>img_id = ''i3'', img_user_id = ''ua'', img_title = ''Untitled'',
             img_image_url = ''http://x/2.png'', img_description = [], img_display_order = 3,
             img_created_at = ''t4'', img_updated_at = ''t5''\<rparr>]\<rparr>)"
    by (simp only: row_a)
  from c have rc: "img_display_order (last (images (snd (create_image demo_store ''i3'' ''t4''
         ''t5'' ''token-c'' (JObj ?kvs))))) = 0"
    by (simp add: row_c)
  from h1 owned_a ra h1c owned_c rc show ?thesis
    by simp
qed

subsection \<open>Creating without an image URL\<close>

text \<open>
  C7. When the body's \<open>image_url\<close> is absent or empty (any falsy value), \<open>create_image\<close>
  answers 400 "image_url is required" and returns the store as it was, so no row is
  inserted. This holds for every token, resolved or not.
\<close>

theorem create_without_image_url:
  assumes "\<not> truthy (dict_get kvs ''image_url'' JNull)"
  shows "create_image s new_id now1 now2 guest_id (JObj kvs) =
           (error_response ''image_url is required'' 400, s)"
  using assms by (simp add: create_image_def)

theorem create_without_image_url_witness:
  "select_eq usr_guest_id ''token-a'' (users demo_store) = [user_a]
   \<and> create_image demo_store ''i3'' ''t4'' ''t5'' ''token-a'' (JObj [(''title'', JStr ''no url'')]) =
       ((Jsonify (JObj [(''error'', JStr ''image_url is required'')]), 400), demo_store)
   \<and> create_image demo_store ''i3'' ''t4'' ''t5'' ''token-a'' (JObj [(''image_url'', JStr [])]) =
       ((Jsonify (JObj [(''error'', JStr ''image_url is required'')]), 400), demo_store)"
proof -
  have h1: "\<not> truthy (dict_get [(''title'', JStr ''no url'')] ''image_url'' JNull)"
    by (simp add: dict_get_def)
  have h2: "\<not> truthy (dict_get [(''image_url'', JStr [])] ''image_url'' JNull)"
    by (simp add: dict_get_def)
  from create_without_image_url [OF h1] create_without_image_url [OF h2] demo_users(1)
  show ?thesis
    by (simp add: error_response_def)
qed

subsection \<open>Writes keep the keys\<close>

lemma set_column_id: "img_id (set_column cv r) = img_id r"
  by (cases "(cv, r)" rule: set_column.cases) simp_all

lemma set_columns_id: "img_id (set_columns payload r) = img_id r"
  unfolding set_columns_def by (induction payload arbitrary: r) (simp_all add: set_column_id)

lemma update_images_ids:
  assumes "update_images payload P rows = Inr (changed, rows')"
  shows "map img_id rows' = map img_id rows"
proof -
  from assms have "rows' = map (\<lambda>r. if P r then set_columns payload r else r) rows"
    by (simp add: update_images_def split: if_splits)
  then show ?thesis
    by (simp add: o_def if_distrib set_columns_id cong: if_cong)
qed

lemma reorder_loop_ids:
  "map img_id (snd (reorder_loop container_str user_id items rows)) = map img_id rows"
proof (induction items arbitrary: rows)
  case Nil
  then show ?case by simp
next
  case (Cons item items)
  show ?case
    by (auto split: sum.splits prod.splits simp: Cons.IH dest: update_images_ids)
qed

lemma update_image_keeps_ids:
  "map img_id (images (snd (update_image s now guest_id image_id data))) = map img_id (images s)"
  by (auto simp: update_image_def Let_def split: list.splits sum.splits prod.splits
      dest: update_images_ids)

lemma reorder_images_keeps_ids:
  "map img_id (images (snd (reorder_images container_str s guest_id data))) =
     map img_id (images s)"
proof -
  have "\<And>user_id items e rows'.
          reorder_loop container_str user_id items (images s) = (e, rows') \<Longrightarrow>
          map img_id rows' = map img_id (images s)"
    using reorder_loop_ids by (metis snd_conv)
  then show ?thesis
    by (auto simp: reorder_images_def Let_def
        split: list.splits sum.splits prod.splits option.splits)
qed

lemma delete_image_distinct_ids:
  "distinct (map img_id (images s)) \<Longrightarrow>
   distinct (map img_id (images (snd (delete_image s guest_id image_id))))"
  by (auto simp: delete_image_def Let_def delete_images_def distinct_map_filter
      split: list.splits)

lemma create_image_distinct_ids:
  assumes "distinct (map img_id (images s))" and "new_id \<notin> img_id ` set (images s)"
  shows "distinct (map img_id (images (snd (create_image s new_id now1 now2 guest_id data))))"
proof -
  have "\<And>payload changed rows'. insert_images new_id payload (images s) = Inr (changed, rows')
          \<Longrightarrow> distinct (map img_id rows')"
    using assms
    by (auto simp: insert_images_def Let_def set_columns_id blank_image_def split: if_splits)
  then show ?thesis
    using assms(1)
    by (auto simp: create_image_def Let_def split: json.splits list.splits sum.splits prod.splits
        simp del: One_nat_def)
qed

subsection \<open>Updating an image\<close>

lemma build_update_data_dict:
  "build_update_data (JObj kvs) keys upd = Inr (upd @ concat (map (present kvs) keys))"
  by (induction keys arbitrary: upd) (auto simp: present_def split: option.splits)

lemma set_columns_append: "set_columns (xs @ ys) r = set_columns ys (set_columns xs r)"
  by (simp add: set_columns_def)

lemma column_ok_text:
  "column_ok (c, v) \<Longrightarrow> c \<noteq> ''display_order'' \<Longrightarrow> \<exists>t. v = JStr t"
  by (cases v) auto

lemma column_ok_int:
  "column_ok (''display_order'', v) \<Longrightarrow> \<exists>n. v = JInt n"
  by (cases v) auto

lemma present_ok: "list_all column_ok (present kvs key) = field_ok kvs key"
  by (simp add: field_ok_def present_def split: option.splits)

lemma present_title:
  "field_ok kvs ''title'' \<Longrightarrow>
   set_columns (present kvs ''title'') r = r\<lparr>img_title := new_text kvs ''title'' (img_title r)\<rparr>"
  by (auto simp: field_ok_def present_def set_columns_def new_text_def
      split: option.splits dest!: column_ok_text)

lemma present_description:
  "field_ok kvs ''description'' \<Longrightarrow>
   set_columns (present kvs ''description'') r =
     r\<lparr>img_description := new_text kvs ''description'' (img_description r)\<rparr>"
  by (auto simp: field_ok_def present_def set_columns_def new_text_def
      split: option.splits dest!: column_ok_text)

lemma present_image_url:
  "field_ok kvs ''image_url'' \<Longrightarrow>
   set_columns (present kvs ''image_url'') r =
     r\<lparr>img_image_url := new_text kvs ''image_url'' (img_image_url r)\<rparr>"
  by (auto simp: field_ok_def present_def set_columns_def new_text_def
      split: option.splits dest!: column_ok_text)

lemma present_display_order:
  "field_ok kvs ''display_order'' \<Longrightarrow>
   set_columns (present kvs ''display_order'') r =
     r\<lparr>img_display_order := new_int kvs ''display_order'' (img_display_order r)\<rparr>"
  by (auto simp: field_ok_def present_def set_columns_def new_int_def
      split: option.splits dest!: column_ok_int)

lemma update_data_effect:
  assumes "field_ok kvs ''title''" "field_ok kvs ''description''" "field_ok kvs ''image_url''"
    "field_ok kvs ''display_order''"
  shows "set_columns ([(''updated_at'', JStr now)] @
            concat (map (present kvs) [''title'', ''description'', ''image_url'', ''display_order'']))
           r = updated_image kvs now r"
proof -
  have "set_columns [(''updated_at'', JStr now)] r = r\<lparr>img_updated_at := now\<rparr>"
    by (simp add: set_columns_def)
  then show ?thesis
    using assms
    by (simp add: set_columns_append present_title present_description present_image_url
        present_display_order updated_image_def del: append.simps)
qed

lemma update_data_ok:
  "list_all column_ok ([(''updated_at'', JStr now)] @
      concat (map (present kvs) [''title'', ''description'', ''image_url'', ''display_order'']))
   = (field_ok kvs ''title'' \<and> field_ok kvs ''description'' \<and> field_ok kvs ''image_url''
      \<and> field_ok kvs ''display_order'')"
  by (simp add: present_ok del: append.simps)

lemma map_distinct_id:
  assumes "distinct (map img_id rows)" "r0 \<in> set rows"
  shows "map (\<lambda>r. if img_id r = img_id r0 then f r else r) rows =
         map (\<lambda>r. if r = r0 then f r0 else r) rows"
proof (rule map_cong [OF refl])
  fix r assume "r \<in> set rows"
  then have "img_id r = img_id r0 \<longleftrightarrow> r = r0"
    using assms by (metis distinct_map inj_onD)
  then show "(if img_id r = img_id r0 then f r else r) = (if r = r0 then f r0 else r)"
    by auto
qed

text \<open>
  An update that carries a value of the wrong type for one of the four fields is refused
  by the store: the answer is 500 and nothing is written.
\<close>

lemma update_image_rejected:
  assumes "select_eq usr_guest_id guest_id (users s) = user # rest"
    and "r0 \<in> set (images s)" and "img_id r0 = image_id" and "img_user_id r0 = usr_id user"
    and "\<not> (field_ok kvs ''title'' \<and> field_ok kvs ''description'' \<and> field_ok kvs ''image_url''
            \<and> field_ok kvs ''display_order'')"
  shows "update_image s now guest_id image_id (JObj kvs) = (server_error APIError, s)"
proof -
  define payload where "payload = [(''updated_at'', JStr now)] @
            concat (map (present kvs) [''title'', ''description'', ''image_url'', ''display_order''])"
  have own: "select_eq img_user_id (usr_id user) (select_eq img_id image_id (images s)) \<noteq> []"
    using assms(2-4) by (auto simp: select_eq_def filter_empty_conv)
  have bud: "build_update_data (JObj kvs)
               [''title'', ''description'', ''image_url'', ''display_order'']
               [(''updated_at'', JStr now)] = Inr payload"
    unfolding payload_def by (rule build_update_data_dict)
  have "\<not> list_all column_ok payload"
    unfolding payload_def update_data_ok using assms(5) .
  then have "update_images payload (\<lambda>r. img_id r = image_id) (images s) = Inl APIError"
    by (simp add: update_images_def)
  then show ?thesis
    unfolding update_image_def using assms(1) own bud by (simp add: Let_def)
qed

text \<open>
  C5. For a resolved user, an image \<open>r0\<close> of that user in a table whose ids are distinct,
  and a partial input whose present fields among \<open>title\<close>, \<open>description\<close>, \<open>image_url\<close>
  and \<open>display_order\<close> are well-typed, \<open>update_image\<close> answers 200 with the record
  \<open>updated_image kvs now r0\<close> (the present fields overwritten, the absent ones and \<open>id\<close>,
  \<open>user_id\<close>, \<open>created_at\<close> kept, \<open>updated_at\<close> set to the clock reading) and puts that
  record in the place of \<open>r0\<close>; every other row and every user is as before.
\<close>

theorem update_image_fields:
  assumes "select_eq usr_guest_id guest_id (users s) = user # rest"
    and "distinct (map img_id (images s))"
    and "r0 \<in> set (images s)" and "img_id r0 = image_id" and "img_user_id r0 = usr_id user"
    and "field_ok kvs ''title''" and "field_ok kvs ''description''"
    and "field_ok kvs ''image_url''" and "field_ok kvs ''display_order''"
  shows "update_image s now guest_id image_id (JObj kvs) =
           ((Jsonify (image_json (updated_image kvs now r0)), 200),
            s\<lparr>images := map (\<lambda>r. if r = r0 then updated_image kvs now r0 else r) (images s)\<rparr>)"
proof -
  let ?P = "\<lambda>r. img_id r = image_id"
  define payload where "payload = [(''updated_at'', JStr now)] @
            concat (map (present kvs) [''title'', ''description'', ''image_url'', ''display_order''])"
  have sel: "filter ?P (images s) = [r0]"
    using select_eq_key [OF assms(2,3)] assms(4) by (simp add: select_eq_def)
  then have own: "select_eq img_user_id (usr_id user) (select_eq img_id image_id (images s)) \<noteq> []"
    using assms(5) by (simp add: select_eq_def)
  have bud: "build_update_data (JObj kvs)
               [''title'', ''description'', ''image_url'', ''display_order'']
               [(''updated_at'', JStr now)] = Inr payload"
    unfolding payload_def by (rule build_update_data_dict)
  have ok: "list_all column_ok payload"
    unfolding payload_def update_data_ok using assms(6-9) by simp
  have eff: "set_columns payload = updated_image kvs now"
    unfolding payload_def using update_data_effect [OF assms(6-9)] by (intro ext)
  have table: "map (\<lambda>r. if ?P r then updated_image kvs now r else r) (images s) =
               map (\<lambda>r. if r = r0 then updated_image kvs now r0 else r) (images s)"
    using map_distinct_id [OF assms(2,3), of "updated_image kvs now"] assms(4) by simp
  have upd: "update_images payload ?P (images s) =
               Inr ([updated_image kvs now r0],
                    map (\<lambda>r. if r = r0 then updated_image kvs now r0 else r) (images s))"
  proof -
    have "map (set_columns payload) (filter ?P (images s)) = [updated_image kvs now r0]"
      by (simp only: eff sel list.map)
    moreover have "map (\<lambda>r. if ?P r then set_columns payload r else r) (images s) =
        map (\<lambda>r. if r = r0 then updated_image kvs now r0 else r) (images s)"
      by (simp only: eff table)
    ultimately show ?thesis
      unfolding update_images_def using ok by (simp only: if_True)
  qed
  show ?thesis
    unfolding update_image_def using assms(1) own bud upd
    by (simp add: Let_def)
qed

theorem update_image_fields_witness:
  "select_eq usr_guest_id ''token-a'' (users demo_store) = [user_a]
   \<and> distinct (map img_id (images demo_store))
   \<and> demo_image ''i1'' ''ua'' 1 \<in> set (images demo_store)
   \<and> update_image demo_store ''t6'' ''token-a'' ''i1''
         (JObj [(''title'', JStr ''Tree''), (''display_order'', JInt 9)]) =
       ((Jsonify (image_json
           \<lparr>img_id = ''i1'', img_user_id = ''ua'', img_title = ''Tree'',
            img_image_url = ''http://x/1.png'', img_description = [], img_display_order = 9,
            img_created_at = ''t3'', img_updated_at = ''t6''\<rparr>), 200),
        demo_store\<lparr>images :=
           [\<lparr>img_id = ''i1'', img_user_id = ''ua'', img_title = ''Tree'',
             img_image_url = ''http://x/1.png'', img_description = [], img_display_order = 9,
             img_created_at = ''t3'', img_updated_at = ''t6''\<rparr>,
            demo_image ''i9'' ''ub'' 7, demo_image ''i0'' ''ua'' 0, demo_image ''i2'' ''ua'' 2]\<rparr>)"
proof -
  let ?kvs = "[(''title'', JStr ''Tree''), (''display_order'', JInt 9)]"
  let ?r0 = "demo_image ''i1'' ''ua'' 1"
  let ?r1 = "\<lparr>img_id = ''i1'', img_user_id = ''ua'', img_title = ''Tree'',
            img_image_url = ''http://x/1.png'', img_description = [], img_display_order = 9,
            img_created_at = ''t3'', img_updated_at = ''t6''\<rparr>"
  have h1: "select_eq usr_guest_id ''token-a'' (users demo_store) = [user_a]"
    by (rule demo_users)
  have h2: "distinct (map img_id (images demo_store))"
    by (simp add: demo_store_def demo_image_def)
  have h3: "?r0 \<in> set (images demo_store)"
    by (simp add: demo_store_def)
  have h4: "img_id ?r0 = ''i1''"
    by (simp add: demo_image_def)
  have h5: "img_user_id ?r0 = usr_id user_a"
    by (simp add: demo_image_def user_a_def)
  have h6: "field_ok ?kvs ''title''" and h7: "field_ok ?kvs ''description''"
    and h8: "field_ok ?kvs ''image_url''" and h9: "field_ok ?kvs ''display_order''"
    by (simp_all add: field_ok_def)
  have row: "updated_image ?kvs ''t6'' ?r0 = ?r1"
    by (simp add: updated_image_def new_text_def new_int_def demo_image_def)
  have tab: "map (\<lambda>r. if r = ?r0 then ?r1 else r) (images demo_store) =
             [?r1, demo_image ''i9'' ''ub'' 7, demo_image ''i0'' ''ua'' 0, demo_image ''i2'' ''ua'' 2]"
    by (simp add: demo_store_def demo_image_def)
  from update_image_fields [OF h1 h2 h3 h4 h5 h6 h7 h8 h9, of "''t6''"]
  have "update_image demo_store ''t6'' ''token-a'' ''i1'' (JObj ?kvs) =
          ((Jsonify (image_json ?r1), 200),
           demo_store\<lparr>images := [?r1, demo_image ''i9'' ''ub'' 7, demo_image ''i0'' ''ua'' 0,
                                   demo_image ''i2'' ''ua'' 2]\<rparr>)"
    by (simp only: row tab)
  with h1 h2 h3 show ?thesis
    by simp
qed

subsection \<open>Deleting an image\<close>

text \<open>
  C8. For a resolved user and an image of that user, \<open>delete_image\<close> answers 200; in the
  store it leaves, \<open>get_images\<close> for the same user answers 200 with rows none of which
  carries the deleted id, and a second \<open>delete_image\<close> of the id answers 404.
\<close>

theorem delete_then_list:
  assumes "select_eq usr_guest_id guest_id (users s) = user # rest"
    and "r0 \<in> set (images s)" and "img_id r0 = image_id" and "img_user_id r0 = usr_id user"
  shows "\<exists>s' rows.
           delete_image s guest_id image_id = (message_response ''Image deleted'' 200, s')
         \<and> get_images s' guest_id = ((Jsonify (JArr (map image_json rows)), 200), s')
         \<and> image_id \<notin> img_id ` set rows
         \<and> delete_image s' guest_id image_id =
             (error_response ''Image not found or access denied'' 404, s')"
proof -
  let ?s' = "s\<lparr>images := delete_images (\<lambda>r. img_id r = image_id) (images s)\<rparr>"
  let ?rows = "order_by img_display_order (select_eq img_user_id (usr_id user) (images ?s'))"
  have "select_eq img_user_id (usr_id user) (select_eq img_id image_id (images s)) \<noteq> []"
    using assms(2-4) by (auto simp: select_eq_def filter_empty_conv)
  then have d1: "delete_image s guest_id image_id = (message_response ''Image deleted'' 200, ?s')"
    using assms(1) by (simp add: delete_image_def)
  have g: "get_images ?s' guest_id = ((Jsonify (JArr (map image_json ?rows)), 200), ?s')"
    using assms(1) by (simp add: get_images_def)
  have n: "image_id \<notin> img_id ` set ?rows"
    by (auto simp: order_by_def select_eq_def delete_images_def)
  have "select_eq img_user_id (usr_id user) (select_eq img_id image_id (images ?s')) = []"
    by (auto simp: select_eq_def delete_images_def filter_empty_conv)
  then have d2: "delete_image ?s' guest_id image_id =
             (error_response ''Image not found or access denied'' 404, ?s')"
    using assms(1) by (simp add: delete_image_def)
  from d1 g n d2 show ?thesis by blast
qed

theorem delete_then_list_witness:
  "select_eq usr_guest_id ''token-a'' (users demo_store) = [user_a]
   \<and> demo_image ''i1'' ''ua'' 1 \<in> set (images demo_store)
   \<and> (\<exists>s' rows.
           delete_image demo_store ''token-a'' ''i1'' =
             ((Jsonify (JObj [(''message'', JStr ''Image deleted'')]), 200), s')
         \<and> get_images s' ''token-a'' = ((Jsonify (JArr (map image_json rows)), 200), s')
         \<and> ''i1'' \<notin> img_id ` set rows
         \<and> delete_image s' ''token-a'' ''i1'' =
             ((Jsonify (JObj [(''error'', JStr ''Image not found or access denied'')]), 404), s'))
   \<and> snd (delete_image demo_store ''token-a'' ''i1'') =
       demo_store\<lparr>images := [demo_image ''i9'' ''ub'' 7, demo_image ''i0'' ''ua'' 0,
                               demo_image ''i2'' ''ua'' 2]\<rparr>"
proof -
  have h1: "select_eq usr_guest_id ''token-a'' (users demo_store) = [user_a]"
    by (rule demo_users)
  have h2: "demo_image ''i1'' ''ua'' 1 \<in> set (images demo_store)"
    by (simp add: demo_store_def)
  have h3: "img_id (demo_image ''i1'' ''ua'' 1) = ''i1''"
    by (simp add: demo_image_def)
  have h4: "img_user_id (demo_image ''i1'' ''ua'' 1) = usr_id user_a"
    by (simp add: demo_image_def user_a_def)
  have st: "snd (delete_image demo_store ''token-a'' ''i1'') =
       demo_store\<lparr>images := [demo_image ''i9'' ''ub'' 7, demo_image ''i0'' ''ua'' 0,
                               demo_image ''i2'' ''ua'' 2]\<rparr>"
    by (simp add: delete_image_def h1 select_eq_def delete_images_def user_a_def demo_store_def
        demo_image_def Let_def)
  from delete_then_list [OF h1 h2 h3 h4] h1 h2 st show ?thesis
    by (simp add: message_response_def error_response_def)
qed

subsection \<open>Reordering\<close>

lemma item_pair_SomeD:
  assumes "item_pair container_str item = Some (t, n)"
  shows "\<exists>i. py_getitem item ''order'' = Inr (JInt n) \<and> py_getitem item ''id'' = Inr i
             \<and> py_str container_str i = t"
proof (cases item)
  case (JObj kvs)
  then show ?thesis
    using assms by (auto split: option.splits json.splits)
qed (insert assms, simp_all)

lemma reorder_step:
  "update_images [(''display_order'', JInt n)]
       (\<lambda>r. img_id r = t \<and> img_user_id r = user_id) rows =
     Inr (map (\<lambda>r. r\<lparr>img_display_order := n\<rparr>)
            (filter (\<lambda>r. img_id r = t \<and> img_user_id r = user_id) rows),
          map (reordered user_id [(t, n)]) rows)"
  by (auto simp: update_images_def set_columns_def reordered_def)

lemma reordered_Nil: "reordered user_id [] = (\<lambda>r. r)"
  by (auto simp: reordered_def fun_eq_iff)

lemma reordered_Cons:
  "reordered user_id ps (reordered user_id [(t, n)] r) = reordered user_id ((t, n) # ps) r"
  by (auto simp: reordered_def map_of_append split: option.splits)

lemma reorder_loop_pairs:
  "map (item_pair container_str) items = map Some pairs \<Longrightarrow>
   reorder_loop container_str user_id items rows = (None, map (reordered user_id pairs) rows)"
proof (induction items arbitrary: pairs rows)
  case Nil
  then show ?case by (simp add: reordered_Nil)
next
  case (Cons item items)
  then obtain t n ps where ps: "pairs = (t, n) # ps" "item_pair container_str item = Some (t, n)"
    "map (item_pair container_str) items = map Some ps"
    by (cases pairs) auto
  from item_pair_SomeD [OF ps(2)] obtain i
    where i: "py_getitem item ''order'' = Inr (JInt n)" "py_getitem item ''id'' = Inr i"
      "py_str container_str i = t"
    by blast
  from i Cons.IH [OF ps(3)] show ?case
    by (simp add: ps(1) reorder_step reordered_Cons)
qed

text \<open>
  An item that is not such a pair stops the loop with an exception: the items before it
  have been written, the items after it are not looked at.
\<close>

lemma reorder_loop_bad_item:
  assumes "item_pair container_str item = None"
  shows "\<exists>e. reorder_loop container_str user_id (item # items) rows = (Some e, rows)"
proof (cases item)
  case (JObj kvs)
  show ?thesis
  proof (cases "map_of kvs ''order''")
    case None
    then show ?thesis using JObj by simp
  next
    case (Some ord)
    note ord = this
    show ?thesis
    proof (cases "map_of kvs ''id''")
      case None
      then show ?thesis using JObj ord by simp
    next
      case (Some iid)
      then have "\<not> column_ok (''display_order'', ord)"
        using assms JObj ord by (cases ord) auto
      then show ?thesis
        using JObj ord Some by (simp add: update_images_def)
    qed
  qed
qed simp_all

lemma reorder_loop_append:
  "reorder_loop container_str user_id items1 rows = (None, rows1) \<Longrightarrow>
   reorder_loop container_str user_id (items1 @ items2) rows =
     reorder_loop container_str user_id items2 rows1"
  by (induction items1 arbitrary: rows) (auto split: sum.splits prod.splits)

lemma reorder_loop_stops:
  assumes "map (item_pair container_str) items1 = map Some pairs"
    and "item_pair container_str item = None"
  shows "\<exists>e. reorder_loop container_str user_id (items1 @ item # items2) rows =
              (Some e, map (reordered user_id pairs) rows)"
  using reorder_loop_append [OF reorder_loop_pairs [OF assms(1)]]
    reorder_loop_bad_item [OF assms(2)]
  by simp

text \<open>
  C6. For a resolved user and an order list whose items are \<open>{id, order}\<close> pairs with an
  integer order, \<open>reorder_images\<close> answers 200 "Reordered" and leaves the table
  \<open>map (reordered \<dots>)\<close>: an image of the user whose id is the text of a listed id has
  the \<open>display_order\<close> given for it, and every other image is as it was; in particular a
  pair whose id is another user's image, or no image at all, changes nothing and raises no
  error. Users are unchanged.
\<close>

theorem reorder_images_pairs:
  assumes "select_eq usr_guest_id guest_id (users s) = user # rest"
    and "map_of kvs ''order'' = Some (JArr items)"
    and "map (item_pair container_str) items = map Some pairs"
  shows "reorder_images container_str s guest_id (JObj kvs) =
           (message_response ''Reordered'' 200,
            s\<lparr>images := map (reordered (usr_id user) pairs) (images s)\<rparr>)"
  using assms
  by (simp add: reorder_images_def dict_get_def
      reorder_loop_pairs [of container_str items pairs])

theorem reorder_images_pairs_witness:
  "select_eq usr_guest_id ''token-a'' (users demo_store) = [user_a]
   \<and> reorder_images (\<lambda>v. []) demo_store ''token-a''
         (JObj [(''order'', JArr [JObj [(''id'', JStr ''i0''), (''order'', JInt 5)],
                                  JObj [(''id'', JStr ''i9''), (''order'', JInt 3)],
                                  JObj [(''id'', JStr ''nope''), (''order'', JInt 4)]])]) =
       ((Jsonify (JObj [(''message'', JStr ''Reordered'')]), 200),
        demo_store\<lparr>images := [demo_image ''i1'' ''ua'' 1, demo_image ''i9'' ''ub'' 7,
                                demo_image ''i0'' ''ua'' 5, demo_image ''i2'' ''ua'' 2]\<rparr>)
   \<and> select_eq usr_guest_id ''token-a'' (users number_store) = [user_a]
   \<and> reorder_images (\<lambda>v. []) number_store ''token-a''
         (JObj [(''order'', JArr [JObj [(''id'', JInt 7), (''order'', JInt 5)],
                                  JObj [(''id'', JInt 12), (''order'', JInt 3)]])]) =
       ((Jsonify (JObj [(''message'', JStr ''Reordered'')]), 200),
        number_store\<lparr>images := [demo_image ''7'' ''ua'' 5, demo_image ''i1'' ''ua'' 1,
                                  demo_image ''i9'' ''ub'' 7, demo_image ''12'' ''ub'' 8]\<rparr>)"
proof -
  let ?cs = "\<lambda>v :: json. [] :: string"
  let ?items = "[JObj [(''id'', JStr ''i0''), (''order'', JInt 5)],
                 JObj [(''id'', JStr ''i9''), (''order'', JInt 3)],
                 JObj [(''id'', JStr ''nope''), (''order'', JInt 4)]]"
  let ?pairs = "[(''i0'', 5), (''i9'', 3), (''nope'', 4)] :: (string \<times> int) list"
  let ?nitems = "[JObj [(''id'', JInt 7), (''order'', JInt 5)],
                  JObj [(''id'', JInt 12), (''order'', JInt 3)]]"
  let ?npairs = "[(''7'', 5), (''12'', 3)] :: (string \<times> int) list"
  have h1: "select_eq usr_guest_id ''token-a'' (users demo_store) = [user_a]"
    by (rule demo_users)
  have h2: "map_of [(''order'', JArr ?items)] ''order'' = Some (JArr ?items)"
    by simp
  have h3: "map (item_pair ?cs) ?items = map Some ?pairs"
    by simp
  have tab: "map (reordered (usr_id user_a) ?pairs) (images demo_store) =
             [demo_image ''i1'' ''ua'' 1, demo_image ''i9'' ''ub'' 7,
              demo_image ''i0'' ''ua'' 5, demo_image ''i2'' ''ua'' 2]"
    by (simp add: reordered_def demo_store_def demo_image_def user_a_def)
  have n1: "select_eq usr_guest_id ''token-a'' (users number_store) = [user_a]"
    by (simp add: number_store_def user_a_def user_b_def user_c_def select_eq_def)
  have n2: "map_of [(''order'', JArr ?nitems)] ''order'' = Some (JArr ?nitems)"
    by simp
  have t7: "int_str 7 = ''7''" and t12: "int_str 12 = ''12''"
    by (simp_all add: int_str_def nat_str.simps digit_char_def)
  have n3: "map (item_pair ?cs) ?nitems = map Some ?npairs"
    by (simp add: t7 t12)
  have ntab: "map (reordered (usr_id user_a) ?npairs) (images number_store) =
             [demo_image ''7'' ''ua'' 5, demo_image ''i1'' ''ua'' 1,
              demo_image ''i9'' ''ub'' 7, demo_image ''12'' ''ub'' 8]"
    by (simp add: reordered_def number_store_def demo_image_def user_a_def)
  from reorder_images_pairs [OF h1 h2 h3] reorder_images_pairs [OF n1 n2 n3] h1 n1
  show ?thesis
    by (simp only: tab ntab message_response_def simp_thms)
qed

subsection \<open>Reordering nothing\<close>

lemma reorder_images_ok_response:
  "snd (fst (reorder_images container_str s guest_id data)) = 200 \<Longrightarrow>
   fst (reorder_images container_str s guest_id data) = message_response ''Reordered'' 200"
  by (auto simp: reorder_images_def server_error_def error_response_def message_response_def
      split: sum.splits list.splits prod.splits option.splits)

text \<open>
  C10. For a resolved user, a reorder whose body is an object without the key \<open>order\<close>,
  or with an empty list under it, answers 200 "Reordered" and returns the store as it
  was; and every reorder that answers 200, whatever its body, gives this same response.
\<close>

theorem reorder_nothing:
  assumes "select_eq usr_guest_id guest_id (users s) = user # rest"
    and "map_of kvs ''order'' = None \<or> map_of kvs ''order'' = Some (JArr [])"
  shows "reorder_images container_str s guest_id (JObj kvs) =
           (message_response ''Reordered'' 200, s)
       \<and> (\<forall>data'. snd (fst (reorder_images container_str s guest_id data')) = 200 \<longrightarrow>
             fst (reorder_images container_str s guest_id data') =
               fst (reorder_images container_str s guest_id (JObj kvs)))"
proof -
  have "reorder_images container_str s guest_id (JObj kvs) =
          (message_response ''Reordered'' 200, s)"
    using assms by (auto simp: reorder_images_def dict_get_def)
  then show ?thesis
    by (simp add: reorder_images_ok_response)
qed

theorem reorder_nothing_witness:
  "select_eq usr_guest_id ''token-a'' (users demo_store) = [user_a]
   \<and> reorder_images (\<lambda>v. []) demo_store ''token-a'' (JObj []) =
       ((Jsonify (JObj [(''message'', JStr ''Reordered'')]), 200), demo_store)
   \<and> reorder_images (\<lambda>v. []) demo_store ''token-a'' (JObj [(''order'', JArr [])]) =
       ((Jsonify (JObj [(''message'', JStr ''Reordered'')]), 200), demo_store)
   \<and> fst (reorder_images (\<lambda>v. []) demo_store ''token-a''
            (JObj [(''order'', JArr [JObj [(''id'', JStr ''i0''), (''order'', JInt 5)]])])) =
       (Jsonify (JObj [(''message'', JStr ''Reordered'')]), 200)"
proof -
  let ?cs = "\<lambda>v :: json. [] :: string"
  have h1: "select_eq usr_guest_id ''token-a'' (users demo_store) = [user_a]"
    by (rule demo_users)
  have h2: "map_of ([] :: (string \<times> json) list) ''order'' = None
            \<or> map_of ([] :: (string \<times> json) list) ''order'' = Some (JArr [])"
    by simp
  have h3: "map_of [(''order'', JArr [])] ''order'' = None
            \<or> map_of [(''order'', JArr [])] ''order'' = Some (JArr [])"
    by simp
  have ne: "snd (fst (reorder_images ?cs demo_store ''token-a''
            (JObj [(''order'', JArr [JObj [(''id'', JStr ''i0''), (''order'', JInt 5)]])]))) = 200"
    by (simp add: reorder_images_def h1 dict_get_def update_images_def message_response_def)
  note a = reorder_nothing [OF h1 h2, of ?cs]
  note b = reorder_nothing [OF h1 h3, of ?cs]
  from a [THEN conjunct2, rule_format, OF ne] a [THEN conjunct1]
  have "fst (reorder_images ?cs demo_store ''token-a''
            (JObj [(''order'', JArr [JObj [(''id'', JStr ''i0''), (''order'', JInt 5)]])])) =
       message_response ''Reordered'' 200"
    by simp
  with a b h1 show ?thesis
    by (simp add: message_response_def)
qed

subsection \<open>Images of another user\<close>

text \<open>
  C1. For a resolved user and an image id that no image of that user carries (in
  particular an id that exists but belongs to another user), \<open>update_image\<close> and
  \<open>delete_image\<close> both answer 404 "Image not found or access denied", whatever the
  request body is, and return the store as it was.
\<close>

theorem foreign_image_not_found:
  assumes "select_eq usr_guest_id guest_id (users s) = user # rest"
    and "\<forall>r \<in> set (images s). img_id r = image_id \<longrightarrow> img_user_id r \<noteq> usr_id user"
  shows "update_image s now guest_id image_id data =
           (error_response ''Image not found or access denied'' 404, s)
       \<and> delete_image s guest_id image_id =
           (error_response ''Image not found or access denied'' 404, s)"
proof -
  have "select_eq img_user_id (usr_id user) (select_eq img_id image_id (images s)) = []"
    using assms(2) by (auto simp: select_eq_def filter_empty_conv)
  then show ?thesis
    using assms(1) by (simp add: update_image_def delete_image_def)
qed

theorem foreign_image_not_found_witness:
  "select_eq usr_guest_id ''token-a'' (users demo_store) = [user_a]
   \<and> (\<exists>r \<in> set (images demo_store). img_id r = ''i9'' \<and> img_user_id r = usr_id user_b)
   \<and> update_image demo_store ''t4'' ''token-a'' ''i9'' (JObj [(''title'', JStr ''mine'')]) =
       ((Jsonify (JObj [(''error'', JStr ''Image not found or access denied'')]), 404),
        demo_store)
   \<and> delete_image demo_store ''token-a'' ''i9'' =
       ((Jsonify (JObj [(''error'', JStr ''Image not found or access denied'')]), 404),
        demo_store)"
proof -
  have h1: "select_eq usr_guest_id ''token-a'' (users demo_store) = [user_a]"
    by (rule demo_users)
  have h2: "\<forall>r \<in> set (images demo_store). img_id r = ''i9'' \<longrightarrow> img_user_id r \<noteq> usr_id user_a"
    by (simp add: demo_store_def user_a_def demo_image_def)
  have h3: "\<exists>r \<in> set (images demo_store). img_id r = ''i9'' \<and> img_user_id r = usr_id user_b"
    by (simp add: demo_store_def user_b_def demo_image_def)
  from foreign_image_not_found [OF h1 h2] h1 h3 show ?thesis
    by (simp add: error_response_def)
qed

subsection \<open>Unregistered tokens\<close>

text \<open>
  C2 (counterexample). \<open>create_image\<close> checks \<open>image_url\<close> before it looks the token up:
  with an unregistered token and an empty \<open>image_url\<close> it answers 400 "image_url is
  required", not 404 "User not found".
\<close>

theorem unregistered_create_counterexample:
  "select_eq usr_guest_id ''token-z'' (users demo_store) = []
   \<and> create_image demo_store ''i3'' ''t4'' ''t5'' ''token-z'' (JObj [(''image_url'', JStr [])]) =
       ((Jsonify (JObj [(''error'', JStr ''image_url is required'')]), 400), demo_store)
   \<and> fst (create_image demo_store ''i3'' ''t4'' ''t5'' ''token-z''
            (JObj [(''image_url'', JStr [])])) \<noteq>
       (Jsonify (JObj [(''error'', JStr ''User not found'')]), 404)"
  by (simp add: create_image_def dict_get_def error_response_def demo_users)

text \<open>
  C2 (amended). With an unregistered token, \<open>get_images\<close> and \<open>delete_image\<close> answer 404
  "User not found". The three handlers that read a body do so before they look the token
  up: when \<open>request.get_json()\<close> raises they answer 500; when it returns,
  \<open>update_image\<close> answers 404 "User not found" for every body, \<open>reorder_images\<close> does so
  when the body is a JSON object, and \<open>create_image\<close> does so when the body is a JSON
  object with a non-empty \<open>image_url\<close>, while with an empty or absent \<open>image_url\<close> it
  answers 400 "image_url is required". In every one of these cases the store is returned
  as it was.
\<close>

theorem unregistered_token:
  assumes "select_eq usr_guest_id guest_id (users s) = []"
  shows "get_images s guest_id = (error_response ''User not found'' 404, s)
       \<and> delete_image s guest_id image_id = (error_response ''User not found'' 404, s)
       \<and> update_image_request s now guest_id image_id (Inr data) =
           (error_response ''User not found'' 404, s)
       \<and> update_image_request s now guest_id image_id (Inl e) = (server_error e, s)
       \<and> reorder_images_request container_str s guest_id (Inr (JObj kvs)) =
           (error_response ''User not found'' 404, s)
       \<and> reorder_images_request container_str s guest_id (Inl e) = (server_error e, s)
       \<and> create_image_request s new_id now1 now2 guest_id (Inr (JObj kvs)) =
           (if truthy (dict_get kvs ''image_url'' JNull)
            then error_response ''User not found'' 404
            else error_response ''image_url is required'' 400, s)
       \<and> create_image_request s new_id now1 now2 guest_id (Inl e) = (server_error e, s)"
  using assms
  by (simp add: get_images_def update_image_def delete_image_def reorder_images_def
      create_image_def update_image_request_def reorder_images_request_def
      create_image_request_def get_json_then_def)

theorem unregistered_token_witness:
  "select_eq usr_guest_id ''token-z'' (users demo_store) = []
   \<and> get_images demo_store ''token-z'' =
       ((Jsonify (JObj [(''error'', JStr ''User not found'')]), 404), demo_store)
   \<and> delete_image demo_store ''token-z'' ''i0'' =
       ((Jsonify (JObj [(''error'', JStr ''User not found'')]), 404), demo_store)
   \<and> update_image_request demo_store ''t4'' ''token-z'' ''i0''
         (Inr (JObj [(''title'', JStr ''x'')])) =
       ((Jsonify (JObj [(''error'', JStr ''User not found'')]), 404), demo_store)
   \<and> update_image_request demo_store ''t4'' ''token-z'' ''i0'' (Inl BadRequest) =
       ((Error_str BadRequest, 500), demo_store)
   \<and> reorder_images_request (\<lambda>v. []) demo_store ''token-z''
         (Inr (JObj [(''order'', JArr [JObj [(''id'', JStr ''i0''), (''order'', JInt 5)]])])) =
       ((Jsonify (JObj [(''error'', JStr ''User not found'')]), 404), demo_store)
   \<and> reorder_images_request (\<lambda>v. []) demo_store ''token-z'' (Inl BadRequest) =
       ((Error_str BadRequest, 500), demo_store)
   \<and> create_image_request demo_store ''i3'' ''t4'' ''t5'' ''token-z''
         (Inr (JObj [(''image_url'', JStr ''http://x/2.png'')])) =
       ((Jsonify (JObj [(''error'', JStr ''User not found'')]), 404), demo_store)
   \<and> create_image_request demo_store ''i3'' ''t4'' ''t5'' ''token-z''
         (Inr (JObj [(''image_url'', JStr [])])) =
       ((Jsonify (JObj [(''error'', JStr ''image_url is required'')]), 400), demo_store)
   \<and> create_image_request demo_store ''i3'' ''t4'' ''t5'' ''token-z'' (Inl BadRequest) =
       ((Error_str BadRequest, 500), demo_store)"
proof -
  have h: "select_eq usr_guest_id ''token-z'' (users demo_store) = []"
    by (rule demo_users)
  from h
    unregistered_token [OF h, of "''i0''" "''t4''" "JObj [(''title'', JStr ''x'')]" BadRequest
      "\<lambda>v. []" "[(''order'', JArr [JObj [(''id'', JStr ''i0''), (''order'', JInt 5)]])]"
      "''i3''" "''t4''" "''t5''"]
    unregistered_token [OF h, of "''i0''" "''t4''" "JObj [(''title'', JStr ''x'')]" BadRequest
      "\<lambda>v. []" "[(''image_url'', JStr ''http://x/2.png'')]" "''i3''" "''t4''" "''t5''"]
    unregistered_token [OF h, of "''i0''" "''t4''" "JObj [(''title'', JStr ''x'')]" BadRequest
      "\<lambda>v. []" "[(''image_url'', JStr [])]" "''i3''" "''t4''" "''t5''"]
  show ?thesis
    by (simp add: error_response_def server_error_def dict_get_def)
qed

subsection \<open>Bodies that are not objects\<close>

text \<open>
  \<open>create_image\<close> and \<open>reorder_images\<close> call \<open>data.get\<close> before anything else, so a body
  that is not a JSON object (\<open>None\<close> included) is answered 500, whatever the token is,
  and nothing is written.
\<close>

lemma non_object_body:
  assumes "\<forall>kvs. data \<noteq> JObj kvs"
  shows "create_image s new_id now1 now2 guest_id data = (server_error AttributeError, s)"
    and "reorder_images container_str s guest_id data = (server_error AttributeError, s)"
  using assms by (cases data; simp add: create_image_def reorder_images_def)+

end
